theory Spec2Isabelle
  imports Complex_Main "HOL-Library.AList"
begin

section \<open>Python values used by the add-on\<close>

text \<open>
  A Python \<open>str\<close> is modelled as a \<open>string\<close>, each \<open>char\<close> standing for the code point
  of the same number, so the model covers the strings whose code points are below 256.
  \<open>bytes\<close> values are strings as well.  Every exception the code can raise is a value of
  \<open>error\<close>; a function that can raise returns \<open>error + 'a\<close>, with \<open>Inl\<close> for the exception.
\<close>

type_synonym bytes = string

datatype error =
    ValueError | TypeError | IndexError | KeyError | StopIteration | GeneratorExit
  | UnicodeDecodeError | URLError | HTTPError | OSError | BadZipFile

subsection \<open>\<open>str\<close> methods\<close>

text \<open>
  \<open>str.isspace\<close> on one character: the code points below 256 that Python counts as
  whitespace (tab, line feed, vertical tab, form feed, carriage return, the four
  separators 0x1C to 0x1F, space, next line 0x85 and no-break space 0xA0).
\<close>

definition py_isspace :: "char \<Rightarrow> bool" where
  "py_isspace c \<longleftrightarrow>
     c \<in> set [CHR 0x09, CHR 0x0A, CHR 0x0B, CHR 0x0C, CHR 0x0D, CHR 0x1C, CHR 0x1D,
              CHR 0x1E, CHR 0x1F, CHR 0x20, CHR 0x85, CHR 0xA0]"

text \<open>\<open>s.strip()\<close>: whitespace removed at both ends.\<close>

definition py_strip :: "string \<Rightarrow> string" where
  "py_strip s = rev (dropWhile py_isspace (rev (dropWhile py_isspace s)))"

text \<open>
  \<open>s.split()\<close> with no argument: the maximal runs of non-whitespace characters, in
  order; no empty token.  \<open>split_from cur s\<close> scans \<open>s\<close> with the token read so far
  in \<open>cur\<close>.
\<close>

fun split_from :: "string \<Rightarrow> string \<Rightarrow> string list" where
  "split_from cur [] = (if cur = [] then [] else [cur])"
| "split_from cur (c # cs) =
     (if py_isspace c then (if cur = [] then split_from [] cs else cur # split_from [] cs)
      else split_from (cur @ [c]) cs)"

definition py_split :: "string \<Rightarrow> string list" where
  "py_split s = split_from [] s"

text \<open>
  \<open>s.splitlines()\<close>: the lines of \<open>s\<close> without their line ends.  A line ends at
  \<open>\r\n\<close>, or at one of the line boundary characters; the text after the last line end
  is a line only when it is not empty.
\<close>

definition py_islinebreak :: "char \<Rightarrow> bool" where
  "py_islinebreak c \<longleftrightarrow>
     c \<in> set [CHR 0x0A, CHR 0x0B, CHR 0x0C, CHR 0x0D, CHR 0x1C, CHR 0x1D, CHR 0x1E, CHR 0x85]"

fun splitlines_from :: "string \<Rightarrow> string \<Rightarrow> string list" where
  "splitlines_from cur [] = (if cur = [] then [] else [cur])"
| "splitlines_from cur [c] = (if py_islinebreak c then [cur] else [cur @ [c]])"
| "splitlines_from cur (c # d # cs) =
     (if c = CHR 0x0D \<and> d = CHR 0x0A then cur # splitlines_from [] cs
      else if py_islinebreak c then cur # splitlines_from [] (d # cs)
      else splitlines_from (cur @ [c]) (d # cs))"

definition py_splitlines :: "string \<Rightarrow> string list" where
  "py_splitlines s = splitlines_from [] s"

text \<open>\<open>s.lower()\<close>: the capital letters A to Z and the capital letters of Latin-1
  (0xC0 to 0xDE, but for the multiplication sign 0xD7) move up by 32.\<close>

definition py_lower_char :: "char \<Rightarrow> char" where
  "py_lower_char c =
     (let n = (of_char c :: nat) in
      if (65 \<le> n \<and> n \<le> 90) \<or> (192 \<le> n \<and> n \<le> 222 \<and> n \<noteq> 215) then char_of (n + 32) else c)"

definition py_lower :: "string \<Rightarrow> string" where
  "py_lower s = map py_lower_char s"

text \<open>\<open>sep.join(xs)\<close> and \<open>s.startswith(p)\<close>.\<close>

fun py_join :: "string \<Rightarrow> string list \<Rightarrow> string" where
  "py_join sep [] = []"
| "py_join sep [x] = x"
| "py_join sep (x # y # ys) = x @ sep @ py_join sep (y # ys)"

definition py_startswith :: "string \<Rightarrow> string \<Rightarrow> bool" where
  "py_startswith s p \<longleftrightarrow> take (length p) s = p"

subsection \<open>\<open>int(str)\<close>\<close>

text \<open>
  \<open>int(s)\<close> in base 10: whitespace around the literal is dropped, one sign is allowed,
  then come decimal digits, where single underscores may stand between two digits.
  Anything else raises \<open>ValueError\<close>.  (The interpreter's configurable limit on the number
  of digits is not part of the model.)  \<open>int_digits acc after_digit s\<close> reads the digits,
  \<open>after_digit\<close> telling whether the character before was a digit.
\<close>

definition py_isdigit :: "char \<Rightarrow> bool" where
  "py_isdigit c \<longleftrightarrow> c \<in> set ''0123456789''"

definition digit_value :: "char \<Rightarrow> nat" where
  "digit_value c = of_char c - 48"

fun int_digits :: "nat \<Rightarrow> bool \<Rightarrow> string \<Rightarrow> nat option" where
  "int_digits acc after_digit [] = (if after_digit then Some acc else None)"
| "int_digits acc after_digit (c # cs) =
     (if py_isdigit c then int_digits (10 * acc + digit_value c) True cs
      else if c = CHR ''_'' \<and> after_digit then int_digits acc False cs
      else None)"

definition py_int :: "string \<Rightarrow> error + int" where
  "py_int s =
     (let t = py_strip s;
          neg = (t \<noteq> [] \<and> hd t = CHR ''-'');
          body = (if t \<noteq> [] \<and> (hd t = CHR ''-'' \<or> hd t = CHR ''+'') then tl t else t)
      in case int_digits 0 False body of
           None \<Rightarrow> Inl ValueError
         | Some n \<Rightarrow> Inr (if neg then - int n else int n))"

text \<open>
  The decimal numeral of an integer, as \<open>str\<close> writes it and as an OBJ file writes an
  index: the digits, most significant first, after a minus sign for a negative number.
\<close>

definition digit_char :: "nat \<Rightarrow> char" where
  "digit_char d = ''0123456789'' ! d"

function nat_digits :: "nat \<Rightarrow> string" where
  "nat_digits n =
     (if n < 10 then [digit_char n] else nat_digits (n div 10) @ [digit_char (n mod 10)])"
  by pat_completeness auto
termination
  by (relation "measure id") auto

definition decimal :: "int \<Rightarrow> string" where
  "decimal n = (if n < 0 then CHR ''-'' # nat_digits (nat (- n)) else nat_digits (nat n))"

text \<open>A generator expression or \<open>map\<close> consumed by \<open>tuple\<close>: the elements are converted
  from left to right and the first exception ends the conversion.\<close>

fun map_result :: "('a \<Rightarrow> error + 'b) \<Rightarrow> 'a list \<Rightarrow> error + 'b list" where
  "map_result f [] = Inr []"
| "map_result f (x # xs) =
     (case f x of
        Inl e \<Rightarrow> Inl e
      | Inr y \<Rightarrow> (case map_result f xs of Inl e \<Rightarrow> Inl e | Inr ys \<Rightarrow> Inr (y # ys)))"

section \<open>The add-on: OBJ lines\<close>

text \<open>
  \<^verbatim>\<open>return tuple(map(float, line[2:].split()))\<close>

  \<open>float\<close> is floating-point conversion, which the model takes as a parameter
  \<open>py_float\<close> into a type \<open>'f\<close> of floating-point values.  The tuple has as many
  components as the line has tokens after its first two characters, so it is a list.
\<close>

definition obj_vertex_to_bpy :: "(string \<Rightarrow> error + 'f) \<Rightarrow> string \<Rightarrow> error + 'f list" where
  "obj_vertex_to_bpy py_float line = map_result py_float (py_split (drop 2 line))"

text \<open>\<^verbatim>\<open>return tuple((int(x) - 1) for x in line[2:].split())\<close>\<close>

definition obj_face_to_bpy :: "string \<Rightarrow> error + int list" where
  "obj_face_to_bpy line =
     map_result (\<lambda>x. case py_int x of Inl e \<Rightarrow> Inl e | Inr n \<Rightarrow> Inr (n - 1))
       (py_split (drop 2 line))"

text \<open>A token of \<open>split\<close>: not empty, no whitespace in it.\<close>

definition is_token :: "string \<Rightarrow> bool" where
  "is_token t \<longleftrightarrow> t \<noteq> [] \<and> (\<forall>c \<in> set t. \<not> py_isspace c)"

text \<open>\<open>float\<close> on a decimal integer literal whose value a double holds exactly (at most
  \<open>2 ^ 53\<close> in size) is that value.  This fragment of \<open>float\<close>, with values in \<open>real\<close>,
  instantiates the parameter \<open>py_float\<close> when the model is run; a literal outside the
  fragment is not converted by it.\<close>

definition float_of_int_literal :: "string \<Rightarrow> error + real" where
  "float_of_int_literal s =
     (case py_int s of
        Inl e \<Rightarrow> Inl e
      | Inr n \<Rightarrow> if \<bar>n\<bar> \<le> 2 ^ 53 then Inr (real_of_int n) else Inl ValueError)"

section \<open>The add-on: building the mesh from the streamed lines\<close>

text \<open>
  What \<open>GenerateMesh.execute\<close> builds: the name given to the new mesh and to the new
  object, the two lists \<open>verts\<close> and \<open>faces\<close> of the loop, the data of the mesh as
  \<open>from_pydata\<close> last set it (vertices, edges, faces) and the number of viewport redraws.
  The list \<open>edges\<close> of the code stays empty.  What Blender itself does with the data
  (its checks in \<open>from_pydata\<close>, the final \<open>origin_set\<close>) is outside the model.
\<close>

record 'f mesh_build =
  mesh_name :: string
  obj_name :: string
  verts :: "'f list list"
  faces :: "int list list"
  geometry :: "'f list list \<times> (int \<times> int) list \<times> int list list"
  redraws :: nat

text \<open>\<^verbatim>\<open>mesh.clear_geometry(); mesh.from_pydata(verts, edges, faces); _redraw()\<close>\<close>

definition rebuild :: "'f mesh_build \<Rightarrow> 'f mesh_build" where
  "rebuild st = st\<lparr>geometry := (verts st, [], faces st), redraws := Suc (redraws st)\<rparr>"

text \<open>
  One turn of the loop \<^verbatim>\<open>for line in iterator\<close>: a line starting with \<open>v \<close> appends a
  vertex, else a line starting with \<open>f \<close> appends a face, and then the mesh is rebuilt;
  any other line is skipped by \<^verbatim>\<open>continue\<close>.  A conversion that raises ends the loop.
\<close>

definition scan_line ::
  "(string \<Rightarrow> error + 'f) \<Rightarrow> 'f mesh_build \<Rightarrow> string \<Rightarrow> error + 'f mesh_build" where
  "scan_line py_float st line =
     (if py_startswith line ''v '' then
        (case obj_vertex_to_bpy py_float line of
           Inl e \<Rightarrow> Inl e
         | Inr v \<Rightarrow> Inr (rebuild (st\<lparr>verts := verts st @ [v]\<rparr>)))
      else if py_startswith line ''f '' then
        (case obj_face_to_bpy line of
           Inl e \<Rightarrow> Inl e
         | Inr f \<Rightarrow> Inr (rebuild (st\<lparr>faces := faces st @ [f]\<rparr>)))
      else Inr st)"

text \<open>
  The stream the iterator delivers: each item is a line, or the exception the iterator
  raises at that point.  The loop returns the build it reached and the exception that
  ended it, if any.
\<close>

fun scan_lines ::
  "(string \<Rightarrow> error + 'f) \<Rightarrow> 'f mesh_build \<Rightarrow> (error + string) list
     \<Rightarrow> 'f mesh_build \<times> error option" where
  "scan_lines py_float st [] = (st, None)"
| "scan_lines py_float st (Inl e # rest) = (st, Some e)"
| "scan_lines py_float st (Inr line # rest) =
     (case scan_line py_float st line of
        Inl e \<Rightarrow> (st, Some e)
      | Inr st' \<Rightarrow> scan_lines py_float st' rest)"

definition new_mesh_build :: "string \<Rightarrow> 'f mesh_build" where
  "new_mesh_build name =
     \<lparr>mesh_name = name, obj_name = name, verts = [], faces = [],
      geometry = ([], [], []), redraws = 0\<rparr>"




text \<open>The items of a stream that the loop does not skip: the exceptions, and the lines
  starting with \<open>v \<close> or \<open>f \<close>.\<close>

fun is_geometry_item :: "error + string \<Rightarrow> bool" where
  "is_geometry_item (Inl e) = True"
| "is_geometry_item (Inr line) = (py_startswith line ''v '' \<or> py_startswith line ''f '')"

section \<open>The wrapper: configuration\<close>

text \<open>A subscript \<open>d[k]\<close> on a dictionary literal: \<open>KeyError\<close> when the key is absent.\<close>

definition dict_get :: "('k \<times> 'v) list \<Rightarrow> 'k \<Rightarrow> error + 'v" where
  "dict_get d k = (case map_of d k of None \<Rightarrow> Inl KeyError | Some v \<Rightarrow> Inr v)"

definition LLAMA_CPP_BUILD :: string where
  "LLAMA_CPP_BUILD = ''b4227''"

definition LLAMA_CPP_PARAM :: string where
  "LLAMA_CPP_PARAM = py_join '' '' [''-ngl 999'', ''-fa'']"

definition SYSTEM_TO_FILE_NAME :: "(string \<times> string) list" where
  "SYSTEM_TO_FILE_NAME =
     [(''Linux'', ''ubuntu''), (''Windows'', ''win-vulkan''), (''Darwin'', ''macos'')]"

definition ARCH_TO_FILE_NAME :: "(string \<times> string) list" where
  "ARCH_TO_FILE_NAME = [(''AMD64'', ''x64''), (''x86_64'', ''x64''), (''arm64'', ''arm64'')]"

text \<open>
  The module computes the name of the archive and its URL when it is imported, from
  \<open>platform.system()\<close> and \<open>platform.machine()\<close>; a platform that is not in the tables
  ends the import with \<open>KeyError\<close>.
\<close>

definition BINARY_ZIP_NAME :: "string \<Rightarrow> string \<Rightarrow> error + string" where
  "BINARY_ZIP_NAME system machine =
     (case dict_get SYSTEM_TO_FILE_NAME system of
        Inl e \<Rightarrow> Inl e
      | Inr sys_part \<Rightarrow>
          (case dict_get ARCH_TO_FILE_NAME machine of
             Inl e \<Rightarrow> Inl e
           | Inr arch_part \<Rightarrow>
               Inr (''llama-'' @ LLAMA_CPP_BUILD @ ''-bin-'' @ sys_part @ ''-'' @ arch_part
                    @ ''.zip'')))"

definition BINARY_URL :: "string \<Rightarrow> string \<Rightarrow> error + string" where
  "BINARY_URL system machine =
     (case BINARY_ZIP_NAME system machine of
        Inl e \<Rightarrow> Inl e
      | Inr file \<Rightarrow>
          Inr (''https://github.com/ggerganov/llama.cpp/releases/download/''
               @ LLAMA_CPP_BUILD @ ''/'' @ file))"

definition BINARY_FILE_NAME :: "string \<Rightarrow> error + string" where
  "BINARY_FILE_NAME system =
     dict_get [(''Windows'', ''llama-cli.exe''), (''Linux'', ''llama-cli''),
               (''Darwin'', ''llama-cli'')] system"

section \<open>The wrapper: files and downloads\<close>

text \<open>
  The state the wrapper works on: the text of the version marker file (the module creates
  the file when it is imported), the files of the directories \<open>bin\<close> and \<open>gguf\<close> by
  name, the URLs opened so far, in order, and what was printed, one entry for each call
  of \<open>print\<close>.
\<close>

record world =
  ver_info_file :: string
  bin_dir :: "(string \<times> bytes) list"
  gguf_dir :: "(string \<times> bytes) list"
  opened :: "string list"
  stdout :: "string list"

definition print_line :: "string \<Rightarrow> world \<Rightarrow> world" where
  "print_line text w = w\<lparr>stdout := stdout w @ [text @ [CHR 0x0A]]\<rparr>"

text \<open>
  What \<open>urlopen\<close> returns: the headers, and the results of the successive calls
  \<open>resp.read(524288)\<close>, each a chunk of bytes or the exception the call raises.  After
  the last one the stream is at its end and \<open>read\<close> returns no bytes.
\<close>

record response =
  headers :: "(string \<times> string) list"
  reads :: "(error + bytes) list"

text \<open>\<open>resp.headers[name]\<close>: the value of the first header of that name, the case of
  the letters ignored; \<open>None\<close> when there is none (the message class raises no
  \<open>KeyError\<close>).  \<open>int\<close> of \<open>None\<close> raises \<open>TypeError\<close>.\<close>

definition header_get :: "(string \<times> string) list \<Rightarrow> string \<Rightarrow> string option" where
  "header_get hs name = map_of (map (\<lambda>(k, v). (py_lower k, v)) hs) (py_lower name)"

definition int_of_header :: "string option \<Rightarrow> error + int" where
  "int_of_header v = (case v of None \<Rightarrow> Inl TypeError | Some s \<Rightarrow> py_int s)"

text \<open>\<open>itertools.cycle("-\\|/")\<close>: the \<open>i\<close>-th character it yields.\<close>

definition cycler :: "nat \<Rightarrow> char" where
  "cycler i = [CHR ''-'', CHR 0x5C, CHR ''|'', CHR ''/''] ! (i mod 4)"

text \<open>
  The loop \<^verbatim>\<open>while chunk := resp.read(524288)\<close>: each chunk that is not empty is
  announced by one \<open>print\<close> (message, progress text at the position before the write,
  cycler character, ending in a carriage return) and written to the file; \<open>file\<close> is
  what the file holds, its position being at its end.
\<close>

fun download_loop ::
  "string \<Rightarrow> (nat \<Rightarrow> string) \<Rightarrow> nat \<Rightarrow> (error + bytes) list \<Rightarrow> bytes \<Rightarrow> string list
     \<Rightarrow> bytes \<times> string list \<times> error option" where
  "download_loop msg get_progress_text i [] file out = (file, out, None)"
| "download_loop msg get_progress_text i (Inl e # rs) file out = (file, out, Some e)"
| "download_loop msg get_progress_text i (Inr chunk # rs) file out =
     (if chunk = [] then (file, out, None)
      else download_loop msg get_progress_text (Suc i) rs (file @ chunk)
             (out @ [msg @ '' '' @ get_progress_text (length file) @ '' '' @ [cycler i]
                     @ [CHR 0x0D]]))"

text \<open>
  \<open>_progressive_download(url, save_file)\<close>.  Parameters of the model: \<open>net\<close>, what
  \<open>urlopen\<close> does on a URL; \<open>path_name\<close>, what \<open>pathlib.Path(s).name\<close> is; \<open>percent\<close>,
  the text \<^verbatim>\<open>f"{int(100.0 * save_file.tell() / size):3}%"\<close> for a position and a
  size, which is floating-point arithmetic.  The result is the content of the file, the
  new state and the exception raised, if any.
\<close>

definition progressive_download ::
  "(string \<Rightarrow> error + response) \<Rightarrow> (string \<Rightarrow> string) \<Rightarrow> (nat \<Rightarrow> int \<Rightarrow> string)
     \<Rightarrow> string \<Rightarrow> bytes \<Rightarrow> world \<Rightarrow> bytes \<times> world \<times> error option" where
  "progressive_download net path_name percent url save_file w =
     (let w1 = w\<lparr>opened := opened w @ [url]\<rparr> in
      case net url of
        Inl e \<Rightarrow> (save_file, w1, Some e)
      | Inr resp \<Rightarrow>
          (let baked_msg = ''Downloading '' @ path_name url in
           case int_of_header (header_get (headers resp) ''Content-Length'') of
             Inl e \<Rightarrow> (save_file, w1, Some e)
           | Inr size' \<Rightarrow>
               (let get_progress_text =
                      (if size' \<noteq> 0 then (\<lambda>pos. percent pos size') else (\<lambda>pos. []))
                in case download_loop baked_msg get_progress_text 0 (reads resp) save_file
                          (stdout w1) of
                     (file, out, Some e) \<Rightarrow> (file, w1\<lparr>stdout := out\<rparr>, Some e)
                   | (file, out, None) \<Rightarrow>
                       (file, w1\<lparr>stdout := out @ [[CHR 0x0A]]\<rparr>, None))))"

text \<open>
  The lines 184 to 190 of \<open>_ensure_binary\<close>: the marker text, stripped and split into
  lines, read as the pair of its first two lines; an empty list of lines reads as the pair
  of two empty strings, and \<open>_content[1]\<close> raises \<open>IndexError\<close> on a list of one line.
\<close>

definition read_ver_info :: "string \<Rightarrow> error + (string \<times> string)" where
  "read_ver_info text =
     (case py_splitlines (py_strip text) of
        [] \<Rightarrow> Inr ([], [])
      | [old_binary_os] \<Rightarrow> Inl IndexError
      | old_binary_os # old_binary_build # others \<Rightarrow> Inr (old_binary_os, old_binary_build))"

text \<open>The extraction loop: every member of the archive is written to \<open>bin\<close> under the
  last component of its name; \<open>zip_ref.read\<close> may raise.\<close>

fun extract_all ::
  "(string \<Rightarrow> string) \<Rightarrow> (string \<times> (error + bytes)) list \<Rightarrow> (string \<times> bytes) list
     \<Rightarrow> (string \<times> bytes) list \<times> error option" where
  "extract_all path_name [] dir = (dir, None)"
| "extract_all path_name ((zipped_file, Inl e) # others) dir = (dir, Some e)"
| "extract_all path_name ((zipped_file, Inr data) # others) dir =
     extract_all path_name others (AList.update (path_name zipped_file) data dir)"

text \<open>
  \<open>_ensure_binary()\<close>.  \<open>system\<close> is \<open>platform.system()\<close>, \<open>binary_url\<close> the module's
  \<open>_BINARY_URL\<close>, and \<open>unzip\<close> what \<open>zipfile\<close> finds in the downloaded bytes: an
  exception on opening the archive, or its members in order.
\<close>

definition ensure_binary ::
  "(string \<Rightarrow> error + response) \<Rightarrow> (string \<Rightarrow> string) \<Rightarrow> (nat \<Rightarrow> int \<Rightarrow> string)
     \<Rightarrow> (bytes \<Rightarrow> error + (string \<times> (error + bytes)) list) \<Rightarrow> string \<Rightarrow> string
     \<Rightarrow> world \<Rightarrow> world \<times> error option" where
  "ensure_binary net path_name percent unzip system binary_url w =
     (let w1 = print_line ''Checking for llama.cpp binary'' w in
      case read_ver_info (ver_info_file w1) of
        Inl e \<Rightarrow> (w1, Some e)
      | Inr (old_binary_os, old_binary_build) \<Rightarrow>
          if old_binary_os = system \<and> old_binary_build = LLAMA_CPP_BUILD then (w1, None)
          else
            (let w2 = (print_line ''Downloading new llama.cpp binary'' w1)\<lparr>bin_dir := []\<rparr> in
             case progressive_download net path_name percent binary_url [] w2 of
               (zip_data, w3, Some e) \<Rightarrow> (w3, Some e)
             | (zip_data, w3, None) \<Rightarrow>
                 (case unzip zip_data of
                    Inl e \<Rightarrow> (w3, Some e)
                  | Inr members \<Rightarrow>
                      (case extract_all path_name members (bin_dir w3) of
                         (dir, Some e) \<Rightarrow> (w3\<lparr>bin_dir := dir\<rparr>, Some e)
                       | (dir, None) \<Rightarrow>
                           (w3\<lparr>bin_dir := dir,
                               ver_info_file := system @ [CHR 0x0A] @ LLAMA_CPP_BUILD\<rparr>,
                            None)))))"







section \<open>The wrapper: the subprocess and the line generator\<close>

datatype proc_status = Running | Exited | Killed

record process =
  command :: string
  status :: proc_status
  wait_calls :: nat
  kill_calls :: nat

text \<open>A process that \<open>subprocess.Popen\<close> has just started runs.  \<open>process.wait()\<close>
  returns when the process has ended; \<open>process.kill()\<close> ends a process that runs and
  does nothing to one that has ended.\<close>

definition new_process :: "string \<Rightarrow> process" where
  "new_process cmd = \<lparr>command = cmd, status = Running, wait_calls = 0, kill_calls = 0\<rparr>"

definition proc_wait :: "process \<Rightarrow> process" where
  "proc_wait p =
     p\<lparr>status := (if status p = Running then Exited else status p),
       wait_calls := Suc (wait_calls p)\<rparr>"

definition proc_kill :: "process \<Rightarrow> process" where
  "proc_kill p =
     p\<lparr>status := (if status p = Running then Killed else status p),
       kill_calls := Suc (kill_calls p)\<rparr>"

definition quoted :: "string \<Rightarrow> string" where
  "quoted s = [CHR 0x22] @ s @ [CHR 0x22]"

text \<open>The string given to \<open>subprocess.Popen\<close>:
  \<^verbatim>\<open>f'"{self.binary_path}" {_LLAMA_CPP_PARAM} {" ".join(args)} -m "{self.model_path}" -p "{prompt}"'\<close>\<close>

definition command_line :: "string \<Rightarrow> string \<Rightarrow> string \<Rightarrow> string list \<Rightarrow> string" where
  "command_line binary_path model_path prompt args =
     quoted binary_path @ '' '' @ LLAMA_CPP_PARAM @ '' '' @ py_join '' '' args
     @ '' -m '' @ quoted model_path @ '' -p '' @ quoted prompt"

text \<open>
  The consumer of a generator resumes it with \<open>next\<close>, or raises an exception in it at
  the \<open>yield\<close> where it waits (\<open>throw\<close>; \<open>close\<close> and the finalisation of an abandoned
  generator raise \<open>GeneratorExit\<close> there).  At the end of the consumer's actions the
  generator has not started, waits at a \<open>yield\<close>, has returned or has raised.
\<close>

datatype resume = Next | Throw error

datatype gen_exit = NotStarted | Suspended | Returned | Raises error

text \<open>
  The loop \<^verbatim>\<open>while line := process.stdout.readline()\<close> inside the \<open>try\<close>:
  \<open>out\<close> holds the results of the successive calls of \<open>readline\<close> (after the last one
  the stream is at its end and \<open>readline\<close> returns no bytes), \<open>decode\<close> is
  \<open>bytes.decode("utf-8")\<close>, \<open>ys\<close> the lines yielded so far.
\<close>

fun read_loop ::
  "(bytes \<Rightarrow> error + string) \<Rightarrow> (error + bytes) list \<Rightarrow> resume list \<Rightarrow> string list
     \<Rightarrow> string list \<times> gen_exit" where
  "read_loop decode [] actions ys = (ys, Returned)"
| "read_loop decode (Inl e # out) actions ys = (ys, Raises e)"
| "read_loop decode (Inr line # out) actions ys =
     (if line = [] then (ys, Returned)
      else
        (case decode line of
           Inl e \<Rightarrow> (ys, Raises e)
         | Inr text \<Rightarrow>
             (case actions of
                [] \<Rightarrow> (ys @ [py_strip text], Suspended)
              | Next # actions' \<Rightarrow> read_loop decode out actions' (ys @ [py_strip text])
              | Throw e # actions' \<Rightarrow> (ys @ [py_strip text], Raises e))))"

text \<open>
  \<open>generate_oneshot(prompt, *args)\<close>, driven by the actions of its consumer.  The body
  starts at the first \<open>next\<close>; \<open>popen\<close> tells whether \<open>subprocess.Popen\<close> raises on the
  command line.  The result is the process, if one was started, the lines yielded, and
  how the generator stands.  The \<open>finally\<close> clause runs when the \<open>try\<close> block is left.
  The \<open>print\<close> of each decoded line is not recorded.
\<close>

definition generate_oneshot ::
  "(string \<Rightarrow> error option) \<Rightarrow> (bytes \<Rightarrow> error + string) \<Rightarrow> string \<Rightarrow> string \<Rightarrow> string
     \<Rightarrow> string list \<Rightarrow> (error + bytes) list \<Rightarrow> resume list
     \<Rightarrow> process option \<times> string list \<times> gen_exit" where
  "generate_oneshot popen decode binary_path model_path prompt args out actions =
     (case actions of
        [] \<Rightarrow> (None, [], NotStarted)
      | Throw e # actions' \<Rightarrow> (None, [], Raises e)
      | Next # actions' \<Rightarrow>
          (let cmd = command_line binary_path model_path prompt args in
           case popen cmd of
             Some e \<Rightarrow> (None, [], Raises e)
           | None \<Rightarrow>
               (let process = new_process cmd
                in case read_loop decode out actions' [] of
                     (ys, Returned) \<Rightarrow> (Some (proc_kill (proc_wait process)), ys, Returned)
                   | (ys, Raises e) \<Rightarrow> (Some (proc_kill process), ys, Raises e)
                   | (ys, exit) \<Rightarrow> (Some process, ys, exit))))"

section \<open>Instances of the parameters, to run the model\<close>

text \<open>The text after the last slash: what \<open>Path(s).name\<close> is for a URL that ends in a
  file name.\<close>

definition last_component :: "string \<Rightarrow> string" where
  "last_component s = rev (takeWhile (\<lambda>c. c \<noteq> CHR ''/'') (rev s))"

text \<open>A state in which nothing has been downloaded; the marker file is empty, as the
  module leaves it when it creates it.\<close>

definition fresh_world :: world where
  "fresh_world = \<lparr>ver_info_file = [], bin_dir = [], gguf_dir = [], opened = [], stdout = []\<rparr>"

text \<open>A network that cannot be reached, and one that answers every request alike.\<close>

definition net_down :: "string \<Rightarrow> error + response" where
  "net_down url = Inl URLError"

definition net_serving :: "response \<Rightarrow> string \<Rightarrow> error + response" where
  "net_serving resp url = Inr resp"

text \<open>A progress text and an archive reader for runs in which the first is not printed
  and the second finds one member.\<close>

definition percent_blank :: "nat \<Rightarrow> int \<Rightarrow> string" where
  "percent_blank pos size' = ''  ?%''"

definition unzip_one :: "bytes \<Rightarrow> error + (string \<times> (error + bytes)) list" where
  "unzip_one zip_data = Inr [(''build/bin/llama-cli'', Inr zip_data)]"

text \<open>The first installation on Linux: the URL of the archive, an answer of the server,
  and the state after the installation.\<close>

definition linux_binary_url :: string where
  "linux_binary_url =
     ''https://github.com/ggerganov/llama.cpp/releases/download/b4227/llama-b4227-bin-ubuntu-x64.zip''"

definition zip_response :: response where
  "zip_response = \<lparr>headers = [(''Content-Length'', ''5'')], reads = [Inr ''PK...'']\<rparr>"

definition installed_world :: world where
  "installed_world =
     \<lparr>ver_info_file = ''Linux'' @ [CHR 0x0A] @ ''b4227'',
      bin_dir = [(''llama-cli'', ''PK...'')],
      gguf_dir = [],
      opened = [linux_binary_url],
      stdout = [''Checking for llama.cpp binary'' @ [CHR 0x0A],
                ''Downloading new llama.cpp binary'' @ [CHR 0x0A],
                ''Downloading llama-b4227-bin-ubuntu-x64.zip   ?% -'' @ [CHR 0x0D],
                [CHR 0x0A]]\<rparr>"

text \<open>A \<open>Popen\<close> that starts the process, and a decoding of bytes below 128, which
  UTF-8 leaves as they are.\<close>

definition popen_ok :: "string \<Rightarrow> error option" where
  "popen_ok cmd = None"

definition decode_latin :: "bytes \<Rightarrow> error + string" where
  "decode_latin b = Inr b"

section \<open>Splitting a line into its tokens\<close>

lemma split_from_token:
  "\<forall>c \<in> set t. \<not> py_isspace c \<Longrightarrow> split_from cur (t @ rest) = split_from (cur @ t) rest"
  by (induction t arbitrary: cur) auto

lemma split_three_tokens:
  assumes "is_token t1" "is_token t2" "is_token t3"
  shows "py_split (t1 @ '' '' @ t2 @ '' '' @ t3) = [t1, t2, t3]"
proof -
  have sp: "py_isspace CHR '' ''"
    by (simp add: py_isspace_def)
  have last: "split_from [] t3 = [t3]"
    using assms(3) split_from_token [of t3 "[]" "[]"] by (simp add: is_token_def)
  have two: "split_from [] (t2 @ '' '' @ t3) = [t2, t3]"
    using assms(2) split_from_token [of t2 "[]" "'' '' @ t3"] sp last
    by (simp add: is_token_def)
  show ?thesis
    using assms(1) split_from_token [of t1 "[]" "'' '' @ t2 @ '' '' @ t3"] sp two
    by (simp add: is_token_def py_split_def)
qed

subsection \<open>Stripping, and splitting into lines\<close>

lemma dropWhile_spaces:
  "\<forall>c \<in> set ws. P c \<Longrightarrow> \<not> P a \<Longrightarrow> dropWhile P (ws @ a # xs) = a # xs"
  by (induction ws) auto

lemma strip_core:
  assumes "\<forall>c \<in> set pre. py_isspace c" "\<forall>c \<in> set post. py_isspace c"
    and "line \<noteq> []" "\<not> py_isspace (hd line)" "\<not> py_isspace (last line)"
  shows "py_strip (pre @ line @ post) = line"
proof -
  from assms(3) obtain a xs where hd_form: "line = a # xs"
    by (cases line) auto
  from assms(3) obtain ys b where last_form: "line = ys @ [b]"
    by (cases line rule: rev_cases) auto
  have front: "dropWhile py_isspace (pre @ line @ post) = line @ post"
    using assms(1,4) hd_form dropWhile_spaces [of pre py_isspace a "xs @ post"] by simp
  have "dropWhile py_isspace (rev post @ b # rev ys) = b # rev ys"
    using assms(2,5) last_form dropWhile_spaces [of "rev post" py_isspace b "rev ys"] by simp
  then have "dropWhile py_isspace (rev (line @ post)) = rev line"
    using last_form by simp
  with front show ?thesis
    by (simp add: py_strip_def)
qed

lemma splitlines_from_one_line:
  "line \<noteq> [] \<Longrightarrow> \<forall>c \<in> set line. \<not> py_islinebreak c \<Longrightarrow> splitlines_from cur line = [cur @ line]"
  by (induction cur line rule: splitlines_from.induct) (auto simp: py_islinebreak_def)

section \<open>Face and vertex lines\<close>

text \<open>
  C1.  A face line \<open>f <i> <j> <k>\<close>, its three tokens being integer literals (strings that
  \<open>int\<close> converts, to \<open>i\<close>, \<open>j\<close> and \<open>k\<close>), gives the triple \<open>(i - 1, j - 1, k - 1)\<close>:
  the 1-based indices of the text become 0-based.
\<close>

theorem obj_face_to_bpy_decrements:
  assumes "is_token t1" "is_token t2" "is_token t3"
    and "py_int t1 = Inr i" "py_int t2 = Inr j" "py_int t3 = Inr k"
  shows "obj_face_to_bpy (''f '' @ t1 @ '' '' @ t2 @ '' '' @ t3) = Inr [i - 1, j - 1, k - 1]"
  using assms(4-6) split_three_tokens [OF assms(1-3)]
  by (simp add: obj_face_to_bpy_def)

theorem obj_face_to_bpy_decrements_witness:
  "is_token ''1'' \<and> is_token ''2'' \<and> is_token ''3'' \<and>
   py_int ''1'' = Inr 1 \<and> py_int ''2'' = Inr 2 \<and> py_int ''3'' = Inr 3 \<and>
   obj_face_to_bpy ''f 1 2 3'' = Inr [0, 1, 2]"
proof -
  have tok: "is_token ''1''" "is_token ''2''" "is_token ''3''"
    by (simp_all add: is_token_def py_isspace_def)
  have ints: "py_int ''1'' = Inr 1" "py_int ''2'' = Inr 2" "py_int ''3'' = Inr 3"
    by (simp_all add: py_int_def py_strip_def py_isspace_def py_isdigit_def digit_value_def)
  show ?thesis
    using tok ints obj_face_to_bpy_decrements [OF tok ints] by simp
qed

subsection \<open>Indices written in decimal\<close>

text \<open>The decimal numeral of every integer is a token that \<open>int\<close> converts back to the
  integer, so the face line written with any three integers gives them decremented.\<close>

declare nat_digits.simps [simp del]

lemma digit_char_cases:
  assumes "d < 10"
  shows "digit_char d \<in> set ''0123456789'' \<and> of_char (digit_char d) = 48 + d"
proof -
  from assms have "d \<in> {0, 1, 2, 3, 4, 5, 6, 7, 8, 9}"
    by auto
  then show ?thesis
    by (auto simp: digit_char_def)
qed

lemma digit_char_digit:
  assumes "d < 10"
  shows "py_isdigit (digit_char d)" "digit_value (digit_char d) = d"
    "\<not> py_isspace (digit_char d)" "digit_char d \<noteq> CHR ''-''" "digit_char d \<noteq> CHR ''+''"
  using digit_char_cases [OF assms]
  by (auto simp: py_isdigit_def digit_value_def py_isspace_def)

lemma nat_digits_not_empty: "nat_digits n \<noteq> []"
  by (subst nat_digits.simps) simp

lemma nat_digits_chars: "c \<in> set (nat_digits n) \<Longrightarrow> py_isdigit c"
proof (induction n rule: nat_digits.induct)
  case (1 n)
  show ?case
  proof (cases "n < 10")
    case True
    with "1.prems" show ?thesis
      by (subst (asm) nat_digits.simps) (simp add: digit_char_digit)
  next
    case False
    with "1.prems" "1.IH" show ?thesis
      by (subst (asm) nat_digits.simps) (auto simp: digit_char_digit)
  qed
qed

lemma int_digits_nat_digits:
  "int_digits acc b (nat_digits n @ t)
     = int_digits (acc * 10 ^ length (nat_digits n) + n) True t"
proof (induction n arbitrary: acc b t rule: nat_digits.induct)
  case (1 n)
  show ?case
  proof (cases "n < 10")
    case True
    then show ?thesis
      by (subst (1 2) nat_digits.simps) (simp add: digit_char_digit mult.commute)
  next
    case False
    have "int_digits acc b (nat_digits n @ t)
        = int_digits acc b (nat_digits (n div 10) @ digit_char (n mod 10) # t)"
      using False by (subst nat_digits.simps) simp
    also have "\<dots> = int_digits (acc * 10 ^ length (nat_digits (n div 10)) + n div 10) True
        (digit_char (n mod 10) # t)"
      using False by (rule "1.IH")
    also have "\<dots> = int_digits (10 * (acc * 10 ^ length (nat_digits (n div 10)) + n div 10)
        + n mod 10) True t"
      by (simp add: digit_char_digit)
    also have "10 * (acc * 10 ^ length (nat_digits (n div 10)) + n div 10) + n mod 10
        = acc * 10 ^ length (nat_digits n) + n"
      using False by (subst (2) nat_digits.simps) (simp add: algebra_simps)
    finally show ?thesis .
  qed
qed


lemma strip_no_space:
  assumes "\<forall>c \<in> set s. \<not> py_isspace c"
  shows "py_strip s = s"
proof (cases "s = []")
  case True
  then show ?thesis by (simp add: py_strip_def)
next
  case False
  with assms have "\<not> py_isspace (hd s)" "\<not> py_isspace (last s)"
    by simp_all
  with False strip_core [of "[]" "[]" s] show ?thesis
    by simp
qed

lemma digit_not_space: "py_isdigit c \<Longrightarrow> \<not> py_isspace c"
  by (auto simp: py_isdigit_def py_isspace_def)

lemma digit_not_sign: "py_isdigit c \<Longrightarrow> c \<noteq> CHR ''-'' \<and> c \<noteq> CHR ''+''"
  by (auto simp: py_isdigit_def)

lemma decimal_token: "is_token (decimal n)"
  using nat_digits_not_empty nat_digits_chars digit_not_space
  by (auto simp: is_token_def decimal_def py_isspace_def)

lemma int_digits_of_nat: "int_digits 0 False (nat_digits m) = Some m"
  using int_digits_nat_digits [of 0 False m "[]"] by simp

lemma py_int_decimal: "py_int (decimal n) = Inr n"
proof -
  have strip: "py_strip (decimal n) = decimal n"
    using decimal_token [of n] by (intro strip_no_space) (simp add: is_token_def)
  show ?thesis
  proof (cases "n < 0")
    case True
    then show ?thesis
      by (simp add: py_int_def strip Let_def) (simp add: decimal_def int_digits_of_nat)
  next
    case False
    have "hd (nat_digits (nat n)) \<in> set (nat_digits (nat n))"
      using nat_digits_not_empty by simp
    then have "hd (nat_digits (nat n)) \<noteq> CHR ''-'' \<and> hd (nat_digits (nat n)) \<noteq> CHR ''+''"
      using nat_digits_chars digit_not_sign by blast
    with False show ?thesis
      by (simp add: py_int_def strip Let_def)
        (simp add: decimal_def int_digits_of_nat nat_digits_not_empty)
  qed
qed

lemma obj_face_to_bpy_decimal:
  "obj_face_to_bpy (''f '' @ decimal i @ '' '' @ decimal j @ '' '' @ decimal k)
     = Inr [i - 1, j - 1, k - 1]"
  using split_three_tokens [OF decimal_token decimal_token decimal_token, of i j k]
  by (simp add: obj_face_to_bpy_def py_int_decimal)

subsection \<open>Vertex lines\<close>

text \<open>
  C2.  A vertex line \<open>v <x> <y> <z>\<close>, its three tokens being literals that \<open>float\<close>
  converts (to \<open>x\<close>, \<open>y\<close> and \<open>z\<close>), gives the triple \<open>(x, y, z)\<close> of the converted
  tokens, in the order of the line.
\<close>

theorem obj_vertex_to_bpy_converts:
  assumes "is_token t1" "is_token t2" "is_token t3"
    and "py_float t1 = Inr x" "py_float t2 = Inr y" "py_float t3 = Inr z"
  shows "obj_vertex_to_bpy py_float (''v '' @ t1 @ '' '' @ t2 @ '' '' @ t3) = Inr [x, y, z]"
  using assms(4-6) split_three_tokens [OF assms(1-3)]
  by (simp add: obj_vertex_to_bpy_def)

theorem obj_vertex_to_bpy_converts_witness:
  "is_token ''1'' \<and> is_token ''2'' \<and> is_token ''3'' \<and>
   float_of_int_literal ''1'' = Inr 1 \<and> float_of_int_literal ''2'' = Inr 2 \<and>
   float_of_int_literal ''3'' = Inr 3 \<and>
   obj_vertex_to_bpy float_of_int_literal ''v 1 2 3'' = Inr [1, 2, 3]"
proof -
  have tok: "is_token ''1''" "is_token ''2''" "is_token ''3''"
    by (simp_all add: is_token_def py_isspace_def)
  have floats: "float_of_int_literal ''1'' = Inr 1" "float_of_int_literal ''2'' = Inr 2"
      "float_of_int_literal ''3'' = Inr 3"
    by (simp_all add: float_of_int_literal_def py_int_def py_strip_def py_isspace_def
        py_isdigit_def digit_value_def)
  show ?thesis
    using tok floats obj_vertex_to_bpy_converts [OF tok floats] by simp
qed

section \<open>Scanning the stream\<close>

lemma scan_line_other:
  "\<not> py_startswith line ''v '' \<Longrightarrow> \<not> py_startswith line ''f '' \<Longrightarrow>
   scan_line py_float st line = Inr st"
  by (simp add: scan_line_def)

lemma scan_lines_filter:
  "scan_lines py_float st stream = scan_lines py_float st (filter is_geometry_item stream)"
proof (induction stream arbitrary: st)
  case Nil
  show ?case by simp
next
  case (Cons item stream)
  show ?case
  proof (cases item)
    case (Inl e)
    then show ?thesis by simp
  next
    case (Inr line)
    show ?thesis
    proof (cases "py_startswith line ''v '' \<or> py_startswith line ''f ''")
      case True
      with Inr Cons.IH show ?thesis
        by (auto split: sum.splits)
    next
      case False
      with Inr Cons.IH [of st] show ?thesis
        by (simp add: scan_line_other)
    qed
  qed
qed

text \<open>
  C4.  In one turn of the loop a line that starts neither with \<open>v \<close> nor with \<open>f \<close>
  leaves the whole build (the vertex list, the face list, the mesh data) as it was.  A turn
  that changes the build is a turn on a \<open>v \<close> line, which appends one vertex and keeps
  the faces, or on an \<open>f \<close> line, which appends one face and keeps the vertices.  For the
  whole loop: dropping every other line from the stream changes nothing in its result.
\<close>

theorem scan_skips_other_lines:
  "(\<not> py_startswith line ''v '' \<and> \<not> py_startswith line ''f ''
      \<longrightarrow> scan_line py_float st line = Inr st)
   \<and> (scan_line py_float st line = Inr st' \<and> verts st' \<noteq> verts st
      \<longrightarrow> py_startswith line ''v '' \<and> faces st' = faces st
          \<and> (\<exists>v. obj_vertex_to_bpy py_float line = Inr v \<and> verts st' = verts st @ [v]))
   \<and> (scan_line py_float st line = Inr st' \<and> faces st' \<noteq> faces st
      \<longrightarrow> \<not> py_startswith line ''v '' \<and> py_startswith line ''f '' \<and> verts st' = verts st
          \<and> (\<exists>f. obj_face_to_bpy line = Inr f \<and> faces st' = faces st @ [f]))
   \<and> scan_lines py_float st stream = scan_lines py_float st (filter is_geometry_item stream)"
proof -
  have other: "\<not> py_startswith line ''v '' \<and> \<not> py_startswith line ''f ''
      \<longrightarrow> scan_line py_float st line = Inr st"
    by (simp add: scan_line_other)
  have vertex: "scan_line py_float st line = Inr st' \<and> verts st' \<noteq> verts st
      \<longrightarrow> py_startswith line ''v '' \<and> faces st' = faces st
          \<and> (\<exists>v. obj_vertex_to_bpy py_float line = Inr v \<and> verts st' = verts st @ [v])"
    by (auto simp: scan_line_def rebuild_def split: if_splits sum.splits)
  have face: "scan_line py_float st line = Inr st' \<and> faces st' \<noteq> faces st
      \<longrightarrow> \<not> py_startswith line ''v '' \<and> py_startswith line ''f '' \<and> verts st' = verts st
          \<and> (\<exists>f. obj_face_to_bpy line = Inr f \<and> faces st' = faces st @ [f])"
    by (auto simp: scan_line_def rebuild_def split: if_splits sum.splits)
  from other vertex face scan_lines_filter [of py_float st stream] show ?thesis
    by blast
qed

subsection \<open>The model on the lines of an example\<close>

lemma split_v_1_2_3: "py_split (drop 2 ''v 1 2 3'') = [''1'', ''2'', ''3'']"
  by code_simp

lemma face_1_2_3: "obj_face_to_bpy ''f 1 2 3'' = Inr [0, 1, 2]"
  by code_simp

lemma float_1_2_3:
  "float_of_int_literal ''1'' = Inr 1" "float_of_int_literal ''2'' = Inr 2"
  "float_of_int_literal ''3'' = Inr 3"
  by (simp_all add: float_of_int_literal_def py_int_def py_strip_def py_isspace_def
      py_isdigit_def digit_value_def)

lemma vertex_1_2_3: "obj_vertex_to_bpy float_of_int_literal ''v 1 2 3'' = Inr [1, 2, 3]"
  unfolding obj_vertex_to_bpy_def split_v_1_2_3 by (simp add: float_1_2_3)

lemma scan_vertex_line:
  "scan_line float_of_int_literal (new_mesh_build name) ''v 1 2 3''
     = Inr (rebuild ((new_mesh_build name)\<lparr>verts := [[1, 2, 3]]\<rparr>))"
  by (simp add: scan_line_def py_startswith_def vertex_1_2_3 new_mesh_build_def)

lemma scan_face_line:
  "scan_line float_of_int_literal (new_mesh_build name) ''f 1 2 3''
     = Inr (rebuild ((new_mesh_build name)\<lparr>faces := [[0, 1, 2]]\<rparr>))"
  by (simp add: scan_line_def py_startswith_def face_1_2_3 new_mesh_build_def)

lemma filter_example:
  "filter is_geometry_item [Inr ''vertices:'', Inr ''v 1 2 3'', Inr ''faces:'', Inr ''f 1 2 3'']
     = [Inr ''v 1 2 3'', Inr ''f 1 2 3'']"
  by (simp add: py_startswith_def)

theorem scan_skips_other_lines_witness:
  "\<not> py_startswith ''vertices:'' ''v '' \<and> \<not> py_startswith ''vertices:'' ''f ''
   \<and> scan_line float_of_int_literal (new_mesh_build ''barrel'') ''vertices:''
       = Inr (new_mesh_build ''barrel'')
   \<and> scan_line float_of_int_literal (new_mesh_build ''barrel'') ''v 1 2 3''
       = Inr (rebuild ((new_mesh_build ''barrel'')\<lparr>verts := [[1, 2, 3]]\<rparr>))
   \<and> py_startswith ''v 1 2 3'' ''v ''
   \<and> scan_line float_of_int_literal (new_mesh_build ''barrel'') ''f 1 2 3''
       = Inr (rebuild ((new_mesh_build ''barrel'')\<lparr>faces := [[0, 1, 2]]\<rparr>))
   \<and> py_startswith ''f 1 2 3'' ''f ''
   \<and> scan_lines float_of_int_literal (new_mesh_build ''barrel'')
         [Inr ''vertices:'', Inr ''v 1 2 3'', Inr ''faces:'', Inr ''f 1 2 3'']
       = scan_lines float_of_int_literal (new_mesh_build ''barrel'')
           [Inr ''v 1 2 3'', Inr ''f 1 2 3'']"
proof -
  let ?st = "new_mesh_build ''barrel'' :: real mesh_build"
  let ?stream = "[Inr ''vertices:'', Inr ''v 1 2 3'', Inr ''faces:'', Inr ''f 1 2 3'']"
  have other: "\<not> py_startswith ''vertices:'' ''v '' \<and> \<not> py_startswith ''vertices:'' ''f ''"
    by (simp add: py_startswith_def)
  from other scan_skips_other_lines [of "''vertices:''" float_of_int_literal ?st ?st ?stream]
  have skip: "scan_line float_of_int_literal ?st ''vertices:'' = Inr ?st"
    by blast
  have v: "scan_line float_of_int_literal ?st ''v 1 2 3''
       = Inr (rebuild (?st\<lparr>verts := [[1, 2, 3]]\<rparr>))"
    by (rule scan_vertex_line)
  have v_new: "verts (rebuild (?st\<lparr>verts := [[1, 2, 3]]\<rparr>)) \<noteq> verts ?st"
    by (simp add: rebuild_def new_mesh_build_def)
  from v v_new
    scan_skips_other_lines [of "''v 1 2 3''" float_of_int_literal ?st
      "rebuild (?st\<lparr>verts := [[1, 2, 3]]\<rparr>)" ?stream]
  have v_line: "py_startswith ''v 1 2 3'' ''v ''"
    by blast
  have f: "scan_line float_of_int_literal ?st ''f 1 2 3''
       = Inr (rebuild (?st\<lparr>faces := [[0, 1, 2]]\<rparr>))"
    by (rule scan_face_line)
  have f_new: "faces (rebuild (?st\<lparr>faces := [[0, 1, 2]]\<rparr>)) \<noteq> faces ?st"
    by (simp add: rebuild_def new_mesh_build_def)
  from f f_new
    scan_skips_other_lines [of "''f 1 2 3''" float_of_int_literal ?st
      "rebuild (?st\<lparr>faces := [[0, 1, 2]]\<rparr>)" ?stream]
  have f_line: "py_startswith ''f 1 2 3'' ''f ''"
    by blast
  from scan_skips_other_lines [of "''vertices:''" float_of_int_literal ?st ?st ?stream]
  have "scan_lines float_of_int_literal ?st ?stream
       = scan_lines float_of_int_literal ?st (filter is_geometry_item ?stream)"
    by blast
  then have loop: "scan_lines float_of_int_literal ?st ?stream
       = scan_lines float_of_int_literal ?st [Inr ''v 1 2 3'', Inr ''f 1 2 3'']"
    by (simp only: filter_example)
  from other skip v v_line f f_line loop show ?thesis
    by blast
qed

section \<open>The first line of the stream\<close>







section \<open>The line generator and its subprocess\<close>

lemma LLAMA_CPP_PARAM_text: "LLAMA_CPP_PARAM = ''-ngl 999 -fa''"
  by (simp add: LLAMA_CPP_PARAM_def)

lemma generate_oneshot_started:
  assumes "generate_oneshot popen decode binary_path model_path prompt args out actions
             = (Some p, ys, ex)"
  shows "\<exists>actions'. actions = Next # actions'
      \<and> popen (command_line binary_path model_path prompt args) = None
      \<and> command p = command_line binary_path model_path prompt args
      \<and> read_loop decode out actions' [] = (ys, ex)
      \<and> (ex = Returned \<longrightarrow>
            p = proc_kill (proc_wait (new_process (command_line binary_path model_path prompt args))))
      \<and> (\<forall>e. ex = Raises e \<longrightarrow>
            p = proc_kill (new_process (command_line binary_path model_path prompt args)))
      \<and> (ex = Suspended \<longrightarrow>
            p = new_process (command_line binary_path model_path prompt args))"
  using assms
  by (auto simp: generate_oneshot_def Let_def proc_kill_def proc_wait_def new_process_def
      split: list.splits resume.splits option.splits prod.splits gen_exit.splits)

lemma read_loop_started: "snd (read_loop decode out actions ys) \<noteq> NotStarted"
  by (induction decode out actions ys rule: read_loop.induct)
    (auto split: sum.splits list.splits resume.splits)

text \<open>
  C5.  When \<open>generate_oneshot\<close> has started its subprocess and the generator does not
  wait at a \<open>yield\<close> any more (the loop ended at the end of the stream, or \<open>readline\<close>
  or the decoding raised, or the consumer raised an exception at the \<open>yield\<close>), then
  \<open>kill\<close> has been called on the process, once, and the process does not run.
\<close>

theorem generate_oneshot_kills_process:
  assumes "generate_oneshot popen decode binary_path model_path prompt args out actions
             = (Some p, ys, ex)"
    and "ex \<noteq> Suspended"
  shows "kill_calls p = 1 \<and> status p \<noteq> Running"
proof -
  from generate_oneshot_started [OF assms(1)] obtain actions' where
    loop: "read_loop decode out actions' [] = (ys, ex)"
    and returned: "ex = Returned \<longrightarrow>
            p = proc_kill (proc_wait (new_process (command_line binary_path model_path prompt args)))"
    and raised: "\<forall>e. ex = Raises e \<longrightarrow>
            p = proc_kill (new_process (command_line binary_path model_path prompt args))"
    by blast
  have "ex \<noteq> NotStarted"
    using read_loop_started [of decode out actions' "[]"] loop by simp
  with returned raised assms(2) show ?thesis
    by (cases ex) (auto simp: proc_kill_def proc_wait_def new_process_def)
qed

theorem generate_oneshot_kills_process_witness:
  "generate_oneshot popen_ok decode_latin ''llama-cli'' ''m.gguf'' ''a chair'' []
      [Inr (''chair'' @ [CHR 0x0A]), Inr (''v 1 2 3'' @ [CHR 0x0A])] [Next, Throw GeneratorExit]
     = (Some \<lparr>command = command_line ''llama-cli'' ''m.gguf'' ''a chair'' [], status = Killed,
              wait_calls = 0, kill_calls = 1\<rparr>, [''chair''], Raises GeneratorExit)
   \<and> Raises GeneratorExit \<noteq> Suspended
   \<and> kill_calls \<lparr>command = command_line ''llama-cli'' ''m.gguf'' ''a chair'' [], status = Killed,
              wait_calls = 0, kill_calls = 1\<rparr> = 1
   \<and> status \<lparr>command = command_line ''llama-cli'' ''m.gguf'' ''a chair'' [], status = Killed,
              wait_calls = 0, kill_calls = 1\<rparr> \<noteq> Running"
proof -
  have strip: "py_strip (''chair'' @ [CHR 0x0A]) = ''chair''"
    by (simp add: py_strip_def py_isspace_def)
  have run: "generate_oneshot popen_ok decode_latin ''llama-cli'' ''m.gguf'' ''a chair'' []
      [Inr (''chair'' @ [CHR 0x0A]), Inr (''v 1 2 3'' @ [CHR 0x0A])] [Next, Throw GeneratorExit]
     = (Some \<lparr>command = command_line ''llama-cli'' ''m.gguf'' ''a chair'' [], status = Killed,
              wait_calls = 0, kill_calls = 1\<rparr>, [''chair''], Raises GeneratorExit)"
    using strip by (simp add: generate_oneshot_def popen_ok_def decode_latin_def proc_kill_def new_process_def)
  have exit: "Raises GeneratorExit \<noteq> Suspended"
    by simp
  from run exit generate_oneshot_kills_process [OF run exit] show ?thesis
    by blast
qed

text \<open>While the generator waits at a \<open>yield\<close>, its process runs and has not been
  killed: the \<open>finally\<close> clause runs when the \<open>try\<close> block is left, not before.\<close>

lemma generate_oneshot_suspended:
  assumes "generate_oneshot popen decode binary_path model_path prompt args out actions
             = (Some p, ys, Suspended)"
  shows "kill_calls p = 0 \<and> status p = Running"
  using generate_oneshot_started [OF assms] by (auto simp: new_process_def)

text \<open>
  C6.  The command line of the subprocess that \<open>generate_oneshot\<close> starts is the quoted
  path of the binary, the fixed flags \<open>-ngl 999 -fa\<close>, the extra arguments of the caller
  joined by spaces, \<open>-m\<close> with the quoted model path and \<open>-p\<close> with the quoted prompt;
  it is the string given to \<open>Popen\<close>.
\<close>

theorem generate_oneshot_command_line:
  assumes "generate_oneshot popen decode binary_path model_path prompt args out actions
             = (Some p, ys, ex)"
  shows "command p = quoted binary_path @ '' -ngl 999 -fa '' @ py_join '' '' args
                      @ '' -m '' @ quoted model_path @ '' -p '' @ quoted prompt
         \<and> popen (command p) = None"
proof -
  from generate_oneshot_started [OF assms]
  have "popen (command_line binary_path model_path prompt args) = None
      \<and> command p = command_line binary_path model_path prompt args"
    by auto
  then show ?thesis
    by (simp add: command_line_def LLAMA_CPP_PARAM_text)
qed

theorem generate_oneshot_command_line_witness:
  "generate_oneshot popen_ok decode_latin ''llama-cli'' ''m.gguf'' ''a chair''
      [''-c 4096'', ''-t 0.7''] [] [Next]
     = (Some \<lparr>command = quoted ''llama-cli'' @ '' -ngl 999 -fa -c 4096 -t 0.7 -m ''
                          @ quoted ''m.gguf'' @ '' -p '' @ quoted ''a chair'',
              status = Exited, wait_calls = 1, kill_calls = 1\<rparr>, [], Returned)
   \<and> popen_ok (quoted ''llama-cli'' @ '' -ngl 999 -fa -c 4096 -t 0.7 -m ''
                          @ quoted ''m.gguf'' @ '' -p '' @ quoted ''a chair'') = None"
proof -
  have run: "generate_oneshot popen_ok decode_latin ''llama-cli'' ''m.gguf'' ''a chair''
      [''-c 4096'', ''-t 0.7''] [] [Next]
     = (Some \<lparr>command = quoted ''llama-cli'' @ '' -ngl 999 -fa -c 4096 -t 0.7 -m ''
                          @ quoted ''m.gguf'' @ '' -p '' @ quoted ''a chair'',
              status = Exited, wait_calls = 1, kill_calls = 1\<rparr>, [], Returned)"
    by (simp add: generate_oneshot_def popen_ok_def command_line_def LLAMA_CPP_PARAM_text
        proc_kill_def proc_wait_def new_process_def)
  from run generate_oneshot_command_line [OF run] show ?thesis
    by simp
qed

section \<open>Downloads\<close>

lemma progressive_download_frame:
  assumes "progressive_download net path_name percent url save_file w = (file, w', r)"
  shows "opened w' = opened w @ [url] \<and> ver_info_file w' = ver_info_file w
       \<and> bin_dir w' = bin_dir w \<and> gguf_dir w' = gguf_dir w"
  using assms
  by (auto simp: progressive_download_def Let_def split: sum.splits prod.splits option.splits)

lemma download_loop_no_progress:
  "download_loop msg (\<lambda>pos. []) i (map Inr chunks) written out
     = (written @ concat (takeWhile (\<lambda>c. c \<noteq> []) chunks),
        out @ map (\<lambda>k. msg @ ''  '' @ [cycler k, CHR 0x0D])
                [i ..< i + length (takeWhile (\<lambda>c. c \<noteq> []) chunks)],
        None)"
proof (induction chunks arbitrary: i written out)
  case Nil
  show ?case by simp
next
  case (Cons chunk chunks)
  show ?case
  proof (cases "chunk = []")
    case True
    then show ?thesis by simp
  next
    case False
    have up: "[i ..< Suc (i + n)] = i # [Suc i ..< Suc (i + n)]" for n
      by (rule upt_conv_Cons) simp
    from False show ?thesis
      by (simp add: Cons.IH up del: upt_Suc)
  qed
qed

text \<open>
  C7.  When the response has no \<open>Content-Length\<close> header, \<open>_progressive_download\<close>
  raises \<open>TypeError\<close> (from \<open>int\<close> of the missing value): the URL has been opened once,
  nothing is written to the file and nothing is printed.  When the header is present with
  the value zero and no \<open>read\<close> fails, the download completes: the file receives all the
  chunks up to the end of the stream, and every progress line is printed with an empty
  progress text.
\<close>

theorem progressive_download_content_length:
  "(net url = Inr resp \<and> header_get (headers resp) ''Content-Length'' = None \<longrightarrow>
      progressive_download net path_name percent url save_file w
        = (save_file, w\<lparr>opened := opened w @ [url]\<rparr>, Some TypeError))
   \<and> (net url = Inr resp \<and> header_get (headers resp) ''Content-Length'' = Some v
        \<and> py_int v = Inr 0 \<and> reads resp = map Inr chunks \<longrightarrow>
      progressive_download net path_name percent url save_file w
        = (save_file @ concat (takeWhile (\<lambda>c. c \<noteq> []) chunks),
           w\<lparr>opened := opened w @ [url],
             stdout := stdout w
               @ map (\<lambda>k. ''Downloading '' @ path_name url @ ''  '' @ [cycler k, CHR 0x0D])
                   [0 ..< length (takeWhile (\<lambda>c. c \<noteq> []) chunks)]
               @ [[CHR 0x0A]]\<rparr>,
           None))"
proof -
  have missing: "progressive_download net path_name percent url save_file w
        = (save_file, w\<lparr>opened := opened w @ [url]\<rparr>, Some TypeError)"
    if "net url = Inr resp" "header_get (headers resp) ''Content-Length'' = None"
    using that by (simp add: progressive_download_def int_of_header_def)
  have zero: "progressive_download net path_name percent url save_file w
        = (save_file @ concat (takeWhile (\<lambda>c. c \<noteq> []) chunks),
           w\<lparr>opened := opened w @ [url],
             stdout := stdout w
               @ map (\<lambda>k. ''Downloading '' @ path_name url @ ''  '' @ [cycler k, CHR 0x0D])
                   [0 ..< length (takeWhile (\<lambda>c. c \<noteq> []) chunks)]
               @ [[CHR 0x0A]]\<rparr>,
           None)"
    if "net url = Inr resp" "header_get (headers resp) ''Content-Length'' = Some v"
      "py_int v = Inr 0" "reads resp = map Inr chunks"
    using that
      download_loop_no_progress [of "''Downloading '' @ path_name url" 0 chunks save_file "stdout w"]
    by (simp add: progressive_download_def int_of_header_def)
  from missing zero show ?thesis
    by blast
qed

lemma header_absent: "header_get [(''Content-Type'', ''application/zip'')] ''Content-Length'' = None"
  by code_simp

lemma header_zero: "header_get [(''content-length'', ''0'')] ''Content-Length'' = Some ''0''"
  by code_simp

lemma int_zero: "py_int ''0'' = Inr 0"
  by code_simp

theorem progressive_download_content_length_witness:
  "progressive_download
       (net_serving \<lparr>headers = [(''Content-Type'', ''application/zip'')], reads = [Inr ''abc'']\<rparr>)
       last_component percent_blank ''https://host/m.gguf'' [] fresh_world
     = ([], fresh_world\<lparr>opened := [''https://host/m.gguf'']\<rparr>, Some TypeError)
   \<and> fst (progressive_download
       (net_serving \<lparr>headers = [(''content-length'', ''0'')], reads = [Inr ''abc'', Inr ''de'']\<rparr>)
       last_component percent_blank ''https://host/m.gguf'' [] fresh_world) = ''abcde''
   \<and> snd (snd (progressive_download
       (net_serving \<lparr>headers = [(''content-length'', ''0'')], reads = [Inr ''abc'', Inr ''de'']\<rparr>)
       last_component percent_blank ''https://host/m.gguf'' [] fresh_world)) = None"
proof -
  let ?r1 = "\<lparr>headers = [(''Content-Type'', ''application/zip'')], reads = [Inr ''abc'']\<rparr>"
  let ?r2 = "\<lparr>headers = [(''content-length'', ''0'')], reads = [Inr ''abc'', Inr ''de'']\<rparr>"
  have a: "net_serving ?r1 ''https://host/m.gguf'' = Inr ?r1
      \<and> header_get (headers ?r1) ''Content-Length'' = None"
    by (simp add: net_serving_def header_absent)
  have b: "net_serving ?r2 ''https://host/m.gguf'' = Inr ?r2
      \<and> header_get (headers ?r2) ''Content-Length'' = Some ''0''
      \<and> py_int ''0'' = Inr 0 \<and> reads ?r2 = map Inr [''abc'', ''de'']"
    by (simp add: net_serving_def header_zero int_zero)
  from a progressive_download_content_length [of "net_serving ?r1" "''https://host/m.gguf''" ?r1
      last_component percent_blank "[]" fresh_world]
  have one: "progressive_download (net_serving ?r1) last_component percent_blank
       ''https://host/m.gguf'' [] fresh_world
     = ([], fresh_world\<lparr>opened := opened fresh_world @ [''https://host/m.gguf'']\<rparr>, Some TypeError)"
    by blast
  from b progressive_download_content_length [of "net_serving ?r2" "''https://host/m.gguf''" ?r2
      last_component percent_blank "[]" fresh_world "''0''" "[''abc'', ''de'']"]
  have two: "progressive_download (net_serving ?r2) last_component percent_blank
       ''https://host/m.gguf'' [] fresh_world
     = ([] @ concat (takeWhile (\<lambda>c. c \<noteq> []) [''abc'', ''de'']),
           fresh_world\<lparr>opened := opened fresh_world @ [''https://host/m.gguf''],
             stdout := stdout fresh_world
               @ map (\<lambda>k. ''Downloading '' @ last_component ''https://host/m.gguf'' @ ''  '' @ [cycler k, CHR 0x0D])
                   [0 ..< length (takeWhile (\<lambda>c. c \<noteq> []) [''abc'', ''de''])]
               @ [[CHR 0x0A]]\<rparr>,
           None)"
    by blast
  from one two show ?thesis
    by (simp add: fresh_world_def)
qed

section \<open>The version marker\<close>

lemma system_supported:
  assumes "BINARY_URL system machine = Inr binary_url"
  shows "system = ''Linux'' \<or> system = ''Windows'' \<or> system = ''Darwin''"
  using assms
  by (auto simp: BINARY_URL_def BINARY_ZIP_NAME_def dict_get_def SYSTEM_TO_FILE_NAME_def
      split: sum.splits option.splits if_splits)

lemma marker_Linux: "read_ver_info (''Linux'' @ [CHR 0x0A] @ LLAMA_CPP_BUILD) = Inr (''Linux'', LLAMA_CPP_BUILD)"
  by code_simp
lemma marker_Windows: "read_ver_info (''Windows'' @ [CHR 0x0A] @ LLAMA_CPP_BUILD) = Inr (''Windows'', LLAMA_CPP_BUILD)"
  by code_simp
lemma marker_Darwin: "read_ver_info (''Darwin'' @ [CHR 0x0A] @ LLAMA_CPP_BUILD) = Inr (''Darwin'', LLAMA_CPP_BUILD)"
  by code_simp

lemma print_line_frame:
  "opened (print_line text w) = opened w" "ver_info_file (print_line text w) = ver_info_file w"
  "bin_dir (print_line text w) = bin_dir w" "gguf_dir (print_line text w) = gguf_dir w"
  by (simp_all add: print_line_def)

lemma marker_written:
  assumes "BINARY_URL system machine = Inr binary_url"
  shows "read_ver_info (system @ [CHR 0x0A] @ LLAMA_CPP_BUILD) = Inr (system, LLAMA_CPP_BUILD)"
  using system_supported [OF assms] marker_Linux marker_Windows marker_Darwin by auto

lemma ensure_binary_same:
  assumes "read_ver_info (ver_info_file w) = Inr (system, LLAMA_CPP_BUILD)"
  shows "ensure_binary net path_name percent unzip system binary_url w
           = (print_line ''Checking for llama.cpp binary'' w, None)"
  using assms by (simp add: ensure_binary_def print_line_frame)

lemma ensure_binary_differs:
  assumes "read_ver_info (ver_info_file w) = Inr (old_os, old_build)"
    and "(old_os, old_build) \<noteq> (system, LLAMA_CPP_BUILD)"
    and "ensure_binary net path_name percent unzip system binary_url w = (w', r)"
  shows "opened w' = opened w @ [binary_url]
       \<and> (r = None \<longrightarrow> ver_info_file w' = system @ [CHR 0x0A] @ LLAMA_CPP_BUILD)"
proof -
  let ?w2 = "(print_line ''Downloading new llama.cpp binary''
               (print_line ''Checking for llama.cpp binary'' w))\<lparr>bin_dir := []\<rparr>"
  obtain zip_data w3 err where
    dl: "progressive_download net path_name percent binary_url [] ?w2 = (zip_data, w3, err)"
    by (cases "progressive_download net path_name percent binary_url [] ?w2")
  from progressive_download_frame [OF dl] have w3: "opened w3 = opened w @ [binary_url]"
    by (simp add: print_line_frame)
  from assms dl w3 show ?thesis
    by (auto simp: ensure_binary_def print_line_frame Let_def
        split: option.splits sum.splits prod.splits if_splits)
qed

text \<open>
  C9.  A marker file that holds exactly one line that is not blank (whitespace before it
  and after it, no line end inside it) makes \<open>_ensure_binary\<close> raise \<open>IndexError\<close>,
  right after its first message: nothing is downloaded and no file is changed.
\<close>

theorem ensure_binary_one_line_marker:
  assumes "ver_info_file w = pre @ line @ post"
    and "\<forall>c \<in> set pre. py_isspace c" "\<forall>c \<in> set post. py_isspace c"
    and "line \<noteq> []" "\<not> py_isspace (hd line)" "\<not> py_isspace (last line)"
    and "\<forall>c \<in> set line. \<not> py_islinebreak c"
  shows "ensure_binary net path_name percent unzip system binary_url w
           = (print_line ''Checking for llama.cpp binary'' w, Some IndexError)"
proof -
  have "py_strip (ver_info_file w) = line"
    using assms(1) strip_core [OF assms(2-6)] by simp
  moreover have "py_splitlines line = [line]"
    using splitlines_from_one_line [OF assms(4,7), of "[]"] by (simp add: py_splitlines_def)
  ultimately have "read_ver_info (ver_info_file w) = Inl IndexError"
    by (simp add: read_ver_info_def)
  then show ?thesis
    by (simp add: ensure_binary_def print_line_frame)
qed

theorem ensure_binary_one_line_marker_witness:
  "ensure_binary net_down last_component percent_blank unzip_one ''Linux'' ''https://host/llama.zip''
      (fresh_world\<lparr>ver_info_file := ''Linux'' @ [CHR 0x0A]\<rparr>)
     = (print_line ''Checking for llama.cpp binary''
          (fresh_world\<lparr>ver_info_file := ''Linux'' @ [CHR 0x0A]\<rparr>), Some IndexError)"
proof -
  have a: "ver_info_file (fresh_world\<lparr>ver_info_file := ''Linux'' @ [CHR 0x0A]\<rparr>)
      = [] @ ''Linux'' @ [CHR 0x0A]"
    by simp
  have b: "\<forall>c \<in> set []. py_isspace c" "\<forall>c \<in> set [CHR 0x0A]. py_isspace c"
    "''Linux'' \<noteq> []" "\<not> py_isspace (hd ''Linux'')" "\<not> py_isspace (last ''Linux'')"
    "\<forall>c \<in> set ''Linux''. \<not> py_islinebreak c"
    by (simp_all add: py_isspace_def py_islinebreak_def)
  show ?thesis
    by (rule ensure_binary_one_line_marker [OF a b])
qed

text \<open>
  C3.  Let the module be imported (the platform is in its tables) and let the marker file
  read as a pair (it is blank, or has two lines or more).  Then \<open>_ensure_binary\<close> opens
  the URL of the binary if and only if the pair differs from \<open>platform.system()\<close> and the
  build constant, and otherwise opens nothing.  When it has downloaded and returns, the
  marker holds exactly the current platform and build, one on each line, and a call
  that follows at once, whatever the network, only prints its first message and returns:
  it downloads nothing.
\<close>

theorem ensure_binary_downloads_iff_marker_differs:
  assumes "BINARY_URL system machine = Inr binary_url"
    and "read_ver_info (ver_info_file w) = Inr (old_os, old_build)"
    and "ensure_binary net path_name percent unzip system binary_url w = (w', r)"
  shows "(opened w' = opened w @ [binary_url] \<longleftrightarrow> (old_os, old_build) \<noteq> (system, LLAMA_CPP_BUILD))
       \<and> (opened w' = opened w \<longleftrightarrow> (old_os, old_build) = (system, LLAMA_CPP_BUILD))
       \<and> ((old_os, old_build) \<noteq> (system, LLAMA_CPP_BUILD) \<and> r = None \<longrightarrow>
             ver_info_file w' = system @ [CHR 0x0A] @ LLAMA_CPP_BUILD
           \<and> ensure_binary net2 path_name2 percent2 unzip2 system binary_url w'
               = (print_line ''Checking for llama.cpp binary'' w', None)
           \<and> opened (print_line ''Checking for llama.cpp binary'' w') = opened w')"
proof (cases "(old_os, old_build) = (system, LLAMA_CPP_BUILD)")
  case True
  with assms(2) have "read_ver_info (ver_info_file w) = Inr (system, LLAMA_CPP_BUILD)"
    by simp
  from ensure_binary_same [OF this] assms(3)
  have "w' = print_line ''Checking for llama.cpp binary'' w"
    by simp
  with True show ?thesis
    by (simp add: print_line_frame)
next
  case False
  from ensure_binary_differs [OF assms(2) False assms(3)]
  have opened: "opened w' = opened w @ [binary_url]"
    and marker: "r = None \<longrightarrow> ver_info_file w' = system @ [CHR 0x0A] @ LLAMA_CPP_BUILD"
    by simp_all
  have again: "ensure_binary net2 path_name2 percent2 unzip2 system binary_url w'
               = (print_line ''Checking for llama.cpp binary'' w', None)"
    if "r = None"
  proof -
    from that marker marker_written [OF assms(1)]
    have "read_ver_info (ver_info_file w') = Inr (system, LLAMA_CPP_BUILD)"
      by simp
    then show ?thesis
      by (rule ensure_binary_same)
  qed
  from False opened marker again show ?thesis
    by (simp add: print_line_frame)
qed

lemma binary_url_Linux: "BINARY_URL ''Linux'' ''x86_64'' = Inr linux_binary_url"
  by code_simp

lemma marker_fresh: "read_ver_info (ver_info_file fresh_world) = Inr ([], [])"
  by code_simp

lemma first_install:
  "ensure_binary (net_serving zip_response) last_component percent_blank unzip_one ''Linux''
     linux_binary_url fresh_world = (installed_world, None)"
  by code_simp

theorem ensure_binary_downloads_iff_marker_differs_witness:
  "BINARY_URL ''Linux'' ''x86_64'' = Inr linux_binary_url
   \<and> read_ver_info (ver_info_file fresh_world) = Inr ([], [])
   \<and> ensure_binary (net_serving zip_response) last_component percent_blank unzip_one ''Linux''
        linux_binary_url fresh_world = (installed_world, None)
   \<and> ([], []) \<noteq> (''Linux'', LLAMA_CPP_BUILD)
   \<and> opened installed_world = opened fresh_world @ [linux_binary_url]
   \<and> ver_info_file installed_world = ''Linux'' @ [CHR 0x0A] @ LLAMA_CPP_BUILD
   \<and> ensure_binary net_down last_component percent_blank unzip_one ''Linux''
        linux_binary_url installed_world
       = (print_line ''Checking for llama.cpp binary'' installed_world, None)
   \<and> opened (print_line ''Checking for llama.cpp binary'' installed_world)
       = opened installed_world"
proof -
  have differs: "([], []) \<noteq> (''Linux'', LLAMA_CPP_BUILD)"
    by simp
  from differs
    ensure_binary_downloads_iff_marker_differs [OF binary_url_Linux marker_fresh first_install,
      of net_down last_component percent_blank unzip_one]
  have "opened installed_world = opened fresh_world @ [linux_binary_url]
      \<and> ver_info_file installed_world = ''Linux'' @ [CHR 0x0A] @ LLAMA_CPP_BUILD
      \<and> ensure_binary net_down last_component percent_blank unzip_one ''Linux''
           linux_binary_url installed_world
          = (print_line ''Checking for llama.cpp binary'' installed_world, None)
      \<and> opened (print_line ''Checking for llama.cpp binary'' installed_world)
          = opened installed_world"
    by blast
  with binary_url_Linux marker_fresh first_install differs show ?thesis
    by blast
qed

section \<open>The model file\<close>








end
